theory Spec2Isabelle
  imports Complex_Main "HOL-Library.Word"
begin

section \<open>Layers and collision filters (src/physics.h)\<close>

text \<open>
  \<open>JPH::ObjectLayer\<close> is the library's unsigned 16-bit integer (its default width) and
  \<open>JPH::BroadPhaseLayer\<close> wraps an unsigned 8-bit integer. The three constants of
  namespace \<open>Layers\<close> and the three of namespace \<open>BroadPhaseLayers\<close> follow.
\<close>

type_synonym ObjectLayer = "16 word"

datatype BroadPhaseLayer = BroadPhaseLayer "8 word"

definition Layers_NON_MOVING :: ObjectLayer where
  "Layers_NON_MOVING = 0"

definition Layers_MOVING :: ObjectLayer where
  "Layers_MOVING = 1"

definition Layers_NUM_LAYERS :: ObjectLayer where
  "Layers_NUM_LAYERS = 2"

definition BroadPhaseLayers_NON_MOVING :: BroadPhaseLayer where
  "BroadPhaseLayers_NON_MOVING = BroadPhaseLayer 0"

definition BroadPhaseLayers_MOVING :: BroadPhaseLayer where
  "BroadPhaseLayers_MOVING = BroadPhaseLayer 1"

definition BroadPhaseLayers_NUM_LAYERS :: "32 word" where
  "BroadPhaseLayers_NUM_LAYERS = 2"

text \<open>
  \<open>JPH_ASSERT\<close> is a macro of the library and is compiled only when
  \<open>JPH_ENABLE_ASSERTS\<close> is defined; the build's choice is the parameter
  \<open>asserts_enabled\<close>. A failed assertion calls \<open>AssertFailedImpl\<close>, which returns true,
  and the process stops at the breakpoint: the fault \<open>AssertFailed\<close>. Without
  assertions the macro expands to nothing and the statement after it runs.
\<close>

datatype fault = AssertFailed

definition JPH_ASSERT :: "bool \<Rightarrow> bool \<Rightarrow> fault + 'a \<Rightarrow> fault + 'a" where
  "JPH_ASSERT asserts_enabled inExpression rest =
     (if asserts_enabled \<and> \<not> inExpression then Inl AssertFailed else rest)"

text \<open>\<open>ObjectLayerPairFilterImpl::ShouldCollide\<close>: a switch on the first layer.\<close>

definition ObjectLayerPairFilterImpl_ShouldCollide ::
  "bool \<Rightarrow> ObjectLayer \<Rightarrow> ObjectLayer \<Rightarrow> fault + bool" where
  "ObjectLayerPairFilterImpl_ShouldCollide asserts_enabled inObject1 inObject2 =
     (if inObject1 = Layers_NON_MOVING then Inr (inObject2 = Layers_MOVING)
      else if inObject1 = Layers_MOVING then Inr True
      else JPH_ASSERT asserts_enabled False (Inr False))"

text \<open>\<open>ObjectVsBroadPhaseLayerFilterImpl::ShouldCollide\<close>: the same switch.\<close>

definition ObjectVsBroadPhaseLayerFilterImpl_ShouldCollide ::
  "bool \<Rightarrow> ObjectLayer \<Rightarrow> BroadPhaseLayer \<Rightarrow> fault + bool" where
  "ObjectVsBroadPhaseLayerFilterImpl_ShouldCollide asserts_enabled inLayer1 inLayer2 =
     (if inLayer1 = Layers_NON_MOVING then Inr (inLayer2 = BroadPhaseLayers_MOVING)
      else if inLayer1 = Layers_MOVING then Inr True
      else JPH_ASSERT asserts_enabled False (Inr False))"

text \<open>
  \<open>BPLayerInterfaceImpl\<close>: the member \<open>mObjectToBroadPhase\<close> is an array of
  \<open>Layers::NUM_LAYERS\<close> entries whose default construction leaves them indeterminate
  (\<open>u0\<close>, \<open>u1\<close>); the constructor assigns both.
\<close>

definition BPLayerInterfaceImpl :: "BroadPhaseLayer \<Rightarrow> BroadPhaseLayer \<Rightarrow> BroadPhaseLayer list" where
  "BPLayerInterfaceImpl u0 u1 =
     ([u0, u1][unat Layers_NON_MOVING := BroadPhaseLayers_NON_MOVING])
        [unat Layers_MOVING := BroadPhaseLayers_MOVING]"

definition GetNumBroadPhaseLayers :: "32 word" where
  "GetNumBroadPhaseLayers = BroadPhaseLayers_NUM_LAYERS"

text \<open>
  \<open>GetBroadPhaseLayer\<close>: the assertion, then \<open>mObjectToBroadPhase[inLayer]\<close>. The
  subscript of a C array is not checked: an index past the last entry reads what lies
  after the array in memory, of which the program says nothing; it is the parameter
  \<open>beyond\<close>, by index.
\<close>

definition GetBroadPhaseLayer ::
  "bool \<Rightarrow> BroadPhaseLayer list \<Rightarrow> (nat \<Rightarrow> BroadPhaseLayer) \<Rightarrow> ObjectLayer \<Rightarrow>
     fault + BroadPhaseLayer" where
  "GetBroadPhaseLayer asserts_enabled mObjectToBroadPhase beyond inLayer =
     JPH_ASSERT asserts_enabled (inLayer < Layers_NUM_LAYERS)
       (Inr (if unat inLayer < length mObjectToBroadPhase
             then mObjectToBroadPhase ! unat inLayer
             else beyond (unat inLayer)))"

section \<open>Calls into the libraries, in program order\<close>

text \<open>
  The floating-point values that the program only passes on (positions, velocities, the
  frame time) are modelled by the real numbers they denote. Where the program computes
  with them, in the tick condition of the loop, the rounding is written out.
  \<open>Vector3\<close> is raylib's struct, \<open>RVec3\<close> and \<open>Vec3\<close> are the library's vectors with
  their accessors.
\<close>

datatype Vector3 = Vector3 real real real

datatype RVec3 = RVec3 real real real

datatype Vec3 = Vec3 real real real

fun RVec3_GetX :: "RVec3 \<Rightarrow> real" where "RVec3_GetX (RVec3 a b c) = a"
fun RVec3_GetY :: "RVec3 \<Rightarrow> real" where "RVec3_GetY (RVec3 a b c) = b"
fun RVec3_GetZ :: "RVec3 \<Rightarrow> real" where "RVec3_GetZ (RVec3 a b c) = c"

type_synonym BodyID = "32 word"

datatype log_line =
    Ball_is_not_active
  | Step_Position_Velocity "32 word" RVec3 Vec3
  | Contact_validate_callback

text \<open>
  Every call into the physics library, every assignment to one of its globals and every
  log line is an event; a function's trace is the list of its events in the order the
  source performs them.
\<close>

datatype call =
    Call_RegisterDefaultAllocator
  | Assign_Trace
  | Assign_AssertFailed
  | Assign_Factory_sInstance_new
  | Call_RegisterTypes
  | New_TempAllocatorImpl nat
  | New_JobSystemThreadPool int
  | New_BPLayerInterfaceImpl
  | New_ObjectVsBroadPhaseLayerFilterImpl
  | New_ObjectLayerPairFilterImpl
  | New_PhysicsSystem
  | Call_Init nat nat nat nat
  | Call_SetBodyActivationListener
  | Call_SetContactListener
  | Call_IsActive BodyID
  | Call_GetCenterOfMassPosition BodyID
  | Call_GetLinearVelocity BodyID
  | Call_spdlog_info log_line
  | Call_Update real int
  | Call_RemoveBody BodyID
  | Call_DestroyBody BodyID
  | Call_UnregisterTypes
  | Delete_Factory_sInstance
  | Assign_Factory_sInstance_nullptr
  | Call_draw_scene Vector3 int

text \<open>The arguments of the engine steps (\<open>PhysicsSystem::Update\<close>) in a trace.\<close>

fun engine_updates :: "call list \<Rightarrow> (real \<times> int) list" where
  "engine_updates [] = []"
| "engine_updates (Call_Update dt n # cs) = (dt, n) # engine_updates cs"
| "engine_updates (c # cs) = engine_updates cs"

text \<open>The position and velocity log lines in a trace.\<close>

fun step_lines :: "call list \<Rightarrow> log_line list" where
  "step_lines [] = []"
| "step_lines (Call_spdlog_info (Step_Position_Velocity k p v) # cs) =
     Step_Position_Velocity k p v # step_lines cs"
| "step_lines (c # cs) = step_lines cs"

text \<open>\<open>precedes a b cs\<close>: \<open>b\<close> occurs in \<open>cs\<close> after the first occurrence of \<open>a\<close>.\<close>

definition precedes :: "'a \<Rightarrow> 'a \<Rightarrow> 'a list \<Rightarrow> bool" where
  "precedes a b cs = (b \<in> set (drop 1 (dropWhile (\<lambda>c. c \<noteq> a) cs)))"

section \<open>The contact listener (src/physics.h)\<close>

text \<open>The four values of the library's enum \<open>JPH::ValidateResult\<close>.\<close>

datatype ValidateResult =
    AcceptAllContactsForThisBodyPair
  | AcceptContact
  | RejectContact
  | RejectAllContactsForThisBodyPair

definition OnContactValidate ::
  "'body \<Rightarrow> 'body \<Rightarrow> 'offset \<Rightarrow> 'result \<Rightarrow> ValidateResult \<times> call list" where
  "OnContactValidate inBody1 inBody2 inBaseOffset inCollisionResult =
     (AcceptAllContactsForThisBodyPair, [Call_spdlog_info Contact_validate_callback])"

section \<open>The physics engine (PhysicsEngine, src/physics.h and its implementation)\<close>

text \<open>
  The physics world \<open>'w\<close> belongs to the library. What the program asks of it is a record
  of functions: three queries of the body interface and the step.
\<close>

record 'w JoltPhysics =
  IsActive :: "'w \<Rightarrow> BodyID \<Rightarrow> bool"
  GetCenterOfMassPosition :: "'w \<Rightarrow> BodyID \<Rightarrow> RVec3"
  GetLinearVelocity :: "'w \<Rightarrow> BodyID \<Rightarrow> Vec3"
  Update :: "'w \<Rightarrow> real \<Rightarrow> int \<Rightarrow> 'w"

text \<open>
  The members of \<open>PhysicsEngine\<close> that its functions read or write after \<open>initialise\<close>:
  \<open>_step\<close> (a \<open>JPH::uint\<close>, 32 bits, starting at 0), the world behind
  \<open>_physics_system\<close> and the two body identifiers.
\<close>

record 'w PhysicsEngine =
  step :: "32 word"
  physics_system :: 'w
  sphere_id :: BodyID
  floor_id :: BodyID


text \<open>
  \<open>PhysicsEngine::update\<close>. The result is the returned flag, the value left in the
  reference parameter \<open>sphere_position\<close>, the engine afterwards and the trace.
\<close>

definition update ::
  "'w JoltPhysics \<Rightarrow> real \<Rightarrow> Vector3 \<Rightarrow> 'w PhysicsEngine \<Rightarrow>
     bool \<times> Vector3 \<times> 'w PhysicsEngine \<times> call list" where
  "update J cDeltaTime sphere_position e =
     (let e1 = e\<lparr>step := step e + 1\<rparr> in
      if \<not> IsActive J (physics_system e1) (sphere_id e1)
      then (False, sphere_position, e1,
            [Call_IsActive (sphere_id e1), Call_spdlog_info Ball_is_not_active])
      else
        let position = GetCenterOfMassPosition J (physics_system e1) (sphere_id e1);
            velocity = GetLinearVelocity J (physics_system e1) (sphere_id e1);
            cCollisionSteps = 1
        in (True,
            Vector3 (RVec3_GetX position) (RVec3_GetY position) (RVec3_GetZ position),
            e1\<lparr>physics_system := Update J (physics_system e1) cDeltaTime cCollisionSteps\<rparr>,
            [Call_IsActive (sphere_id e1),
             Call_GetCenterOfMassPosition (sphere_id e1),
             Call_GetLinearVelocity (sphere_id e1),
             Call_spdlog_info (Step_Position_Velocity (step e1) position velocity),
             New_TempAllocatorImpl (10 * 1024 * 1024),
             Call_Update cDeltaTime cCollisionSteps]))"


text \<open>Consecutive calls of \<open>update\<close>, one per delta time, threading position and engine.\<close>

fun updates ::
  "'w JoltPhysics \<Rightarrow> real list \<Rightarrow> Vector3 \<Rightarrow> 'w PhysicsEngine \<Rightarrow>
     Vector3 \<times> 'w PhysicsEngine \<times> call list" where
  "updates J [] sphere_position e = (sphere_position, e, [])"
| "updates J (dt # dts) sphere_position e =
     (case update J dt sphere_position e of
        (r, p, e', cs) \<Rightarrow>
          (case updates J dts p e' of (p', e'', cs') \<Rightarrow> (p', e'', cs @ cs')))"

section \<open>The stepping driver (src/main.cpp) and the game functions (src/game/game.cpp)\<close>

definition kTickrate :: int where
  "kTickrate = 60"

definition kMillisecondsPerSecond :: int where
  "kMillisecondsPerSecond = 1000"

text \<open>raylib's key code of F9.\<close>

definition KEY_F9 :: int where
  "KEY_F9 = 298"

text \<open>\<open>Game_Update\<close> empties the key queue; each F9 in it toggles the debug menu.\<close>

fun Game_Update :: "int list \<Rightarrow> bool \<Rightarrow> int list \<times> bool" where
  "Game_Update [] debug_menu = ([], debug_menu)"
| "Game_Update (key # key_queue) debug_menu =
     (if key = 0 then Game_Update key_queue debug_menu
      else if key = KEY_F9 then Game_Update key_queue (\<not> debug_menu)
      else Game_Update key_queue debug_menu)"

text \<open>
  \<open>Game_DrawDebug\<close>: when the tree node is open, one radio button per colour label,
  index 0 to 6; a pressed button stores its index. What the user does is the input
  (\<open>tree_open\<close>, \<open>pressed\<close>).
\<close>

definition Game_DrawDebug :: "bool \<Rightarrow> (nat \<Rightarrow> bool) \<Rightarrow> int \<Rightarrow> int" where
  "Game_DrawDebug tree_open pressed selected =
     (if tree_open
      then foldl (\<lambda>sel index. if pressed index then int index else sel) selected [0..<7]
      else selected)"

text \<open>
  What one iteration of the loop reads from outside: the frame time, the clock at the
  tick condition and at the assignment to \<open>tickTimer\<close>, the key pressed, and what the
  debug window reports (tree node open, radio buttons pressed, window left open).
\<close>

record frame =
  GetFrameTime :: real
  GetTime_condition :: real
  GetTime_assignment :: real
  GetKeyPressed :: int
  TreeNode_open :: bool
  RadioButton_pressed :: "nat \<Rightarrow> bool"
  Begin_keeps_open :: bool

text \<open>The variables of \<open>main\<close> that the loop reads and writes.\<close>

record 'w main_state =
  tickTimer :: real
  keyQueue :: "int list"
  debugMenu :: bool
  sphere_position :: Vector3
  selected_sphere_colour :: int
  physics_engine :: "'w PhysicsEngine"

text \<open>
  Binary floating point, round to nearest, ties to even. \<open>binade fuel x\<close> is the
  exponent \<open>e\<close> with \<open>2 ^ e \<le> x < 2 ^ (e + 1)\<close> of a positive \<open>x\<close>, found by halving
  or doubling; 1100 steps cover every finite double. \<open>round_binary p emin x\<close> is the
  value with \<open>p\<close> significant bits nearest to \<open>x\<close>, the least exponent being \<open>emin\<close>
  (below it the spacing stays that of \<open>emin\<close>). Overflow to infinity is left out: the
  clock is in seconds since the start of the program.
\<close>

definition round_half_even :: "real \<Rightarrow> int" where
  "round_half_even x =
     (let n = \<lfloor>x\<rfloor>; r = x - of_int n
      in if r < 1 / 2 then n else if 1 / 2 < r then n + 1 else if even n then n else n + 1)"

definition pow2 :: "int \<Rightarrow> real" where
  "pow2 k = (if 0 \<le> k then 2 ^ nat k else 1 / 2 ^ nat (- k))"

fun binade :: "nat \<Rightarrow> real \<Rightarrow> int" where
  "binade 0 x = 0"
| "binade (Suc fuel) x =
     (if 2 \<le> x then binade fuel (x / 2) + 1
      else if x < 1 then binade fuel (2 * x) - 1
      else 0)"

definition round_binary :: "int \<Rightarrow> int \<Rightarrow> real \<Rightarrow> real" where
  "round_binary p emin x =
     (if x = 0 then 0
      else let e = max (binade 1100 \<bar>x\<bar>) emin; u = pow2 (e - p + 1)
           in of_int (round_half_even (x / u)) * u)"

text \<open>\<open>float\<close> has 24 significant bits, \<open>double\<close> has 53.\<close>

definition round_single :: "real \<Rightarrow> real" where
  "round_single x = round_binary 24 (- 126) x"

definition round_double :: "real \<Rightarrow> real" where
  "round_double x = round_binary 53 (- 1022) x"

text \<open>
  The right operand of the tick condition,
  \<open>static_cast<float>(kMillisecondsPerSecond) / static_cast<float>(kTickrate) /
  static_cast<float>(kMillisecondsPerSecond)\<close>: three conversions to \<open>float\<close> and two
  divisions in \<open>float\<close>, from left to right.
\<close>

definition tick_interval :: real where
  "tick_interval =
     round_single
       (round_single
          (round_single (real_of_int kMillisecondsPerSecond)
             / round_single (real_of_int kTickrate))
        / round_single (real_of_int kMillisecondsPerSecond))"

text \<open>
  The tick condition of the loop, \<open>GetTime() - tickTimer > ...\<close>: the difference of two
  \<open>double\<close> values, rounded to \<open>double\<close>, against the \<open>float\<close> above (its conversion
  to \<open>double\<close> is exact).
\<close>

definition tick_gate :: "frame \<Rightarrow> 'w main_state \<Rightarrow> bool" where
  "tick_gate f s = (round_double (GetTime_condition f - tickTimer s) > tick_interval)"

text \<open>
  One iteration of the \<open>while\<close> loop of \<open>main\<close>. Of the drawing block only what touches
  the loop's variables is kept: \<open>draw_scene\<close> receives the current position in both
  branches, and in the debug branch the debug window may change the colour index and
  close itself. The call of \<open>update\<close> is the last statement, outside the tick condition.
\<close>

definition loop_iteration ::
  "'w JoltPhysics \<Rightarrow> frame \<Rightarrow> 'w main_state \<Rightarrow> 'w main_state \<times> call list" where
  "loop_iteration J f s =
     (let frame_time = GetFrameTime f;
          s1 = (if tick_gate f s
                then (case Game_Update (keyQueue s) (debugMenu s) of
                        (q, d) \<Rightarrow> s\<lparr>tickTimer := GetTime_assignment f, keyQueue := q, debugMenu := d\<rparr>)
                else s);
          s2 = s1\<lparr>keyQueue := keyQueue s1 @ [GetKeyPressed f]\<rparr>;
          drawn = [Call_draw_scene (sphere_position s2) (selected_sphere_colour s2)];
          s3 = (if debugMenu s2
                then s2\<lparr>selected_sphere_colour :=
                          Game_DrawDebug (TreeNode_open f) (RadioButton_pressed f)
                            (selected_sphere_colour s2),
                        debugMenu := Begin_keeps_open f\<rparr>
                else s2)
      in case update J frame_time (sphere_position s3) (physics_engine s3) of
           (r, p, e', cs) \<Rightarrow> (s3\<lparr>sphere_position := p, physics_engine := e'\<rparr>, drawn @ cs))"

text \<open>
  The loop runs one iteration per frame for which \<open>WindowShouldClose\<close> answered false;
  the list holds the readings of those frames.
\<close>

fun main_loop ::
  "'w JoltPhysics \<Rightarrow> frame list \<Rightarrow> 'w main_state \<Rightarrow> 'w main_state \<times> call list" where
  "main_loop J [] s = (s, [])"
| "main_loop J (f # fs) s =
     (case loop_iteration J f s of
        (s', cs) \<Rightarrow> (case main_loop J fs s' of (s'', cs') \<Rightarrow> (s'', cs @ cs')))"

section \<open>A sample world\<close>

text \<open>
  A small instance of the library interface on which the theorems are exercised: the
  world is the number of steps the sphere stays awake, which is also its height; a step
  takes one off.
\<close>

definition countdown :: "nat JoltPhysics" where
  "countdown =
     \<lparr>IsActive = (\<lambda>w b. 0 < w),
      GetCenterOfMassPosition = (\<lambda>w b. RVec3 0 (real w) 0),
      GetLinearVelocity = (\<lambda>w b. Vec3 0 (- 1) 0),
      Update = (\<lambda>w dt n. w - 1)\<rparr>"

definition sample_beyond :: "nat \<Rightarrow> BroadPhaseLayer" where
  "sample_beyond i = BroadPhaseLayer 0"

definition sample_engine :: "nat \<Rightarrow> nat PhysicsEngine" where
  "sample_engine w = \<lparr>step = 0, physics_system = w, sphere_id = 1, floor_id = 0\<rparr>"

definition sample_frame :: "real \<Rightarrow> frame" where
  "sample_frame t =
     \<lparr>GetFrameTime = 1 / 60, GetTime_condition = t, GetTime_assignment = t,
      GetKeyPressed = 0, TreeNode_open = False, RadioButton_pressed = (\<lambda>i. False),
      Begin_keeps_open = True\<rparr>"

definition sample_state :: "nat \<Rightarrow> nat main_state" where
  "sample_state w =
     \<lparr>tickTimer = 0, keyQueue = [], debugMenu = False, sphere_position = Vector3 0 10 0,
      selected_sphere_colour = 0, physics_engine = sample_engine w\<rparr>"

section \<open>Layer policy and table lookup\<close>

lemmas layer_defs =
  Layers_NON_MOVING_def Layers_MOVING_def Layers_NUM_LAYERS_def
  BroadPhaseLayers_NON_MOVING_def BroadPhaseLayers_MOVING_def

lemma ObjectLayer_less_2: "(L :: ObjectLayer) < 2 \<longleftrightarrow> L = 0 \<or> L = 1"
  by (auto simp: word_less_nat_alt word_unat_eq_iff less_2_cases_iff)

text \<open>
  C4. On the two object layers the pair filter is symmetric and follows the policy:
  non-moving against non-moving does not collide, non-moving against moving collides,
  and moving collides with every second layer \<open>X\<close>, whatever its value. No assertion
  is met, in either build.
\<close>

theorem ShouldCollide_policy_symmetric:
  assumes "A \<in> {Layers_NON_MOVING, Layers_MOVING}"
    and "B \<in> {Layers_NON_MOVING, Layers_MOVING}"
  shows "ObjectLayerPairFilterImpl_ShouldCollide asserts A B =
           ObjectLayerPairFilterImpl_ShouldCollide asserts B A
       \<and> ObjectLayerPairFilterImpl_ShouldCollide asserts Layers_NON_MOVING Layers_NON_MOVING
           = Inr False
       \<and> ObjectLayerPairFilterImpl_ShouldCollide asserts Layers_NON_MOVING Layers_MOVING
           = Inr True
       \<and> ObjectLayerPairFilterImpl_ShouldCollide asserts Layers_MOVING X = Inr True"
  using assms by (auto simp: ObjectLayerPairFilterImpl_ShouldCollide_def layer_defs)

theorem ShouldCollide_policy_symmetric_witness:
  "Layers_NON_MOVING \<in> {Layers_NON_MOVING, Layers_MOVING}
   \<and> Layers_MOVING \<in> {Layers_NON_MOVING, Layers_MOVING}
   \<and> ObjectLayerPairFilterImpl_ShouldCollide True Layers_NON_MOVING Layers_MOVING = Inr True
   \<and> ObjectLayerPairFilterImpl_ShouldCollide True Layers_MOVING Layers_NON_MOVING = Inr True
   \<and> ObjectLayerPairFilterImpl_ShouldCollide True Layers_MOVING 7 = Inr True"
  using ShouldCollide_policy_symmetric [of Layers_NON_MOVING Layers_MOVING True 7]
  by (simp add: ObjectLayerPairFilterImpl_ShouldCollide_def layer_defs)

text \<open>
  C8, as stated, fails in a build without assertions: layer 2 is out of range, no
  assertion is met, and the lookup returns what lies after the table.
\<close>

theorem GetBroadPhaseLayer_unchecked_counterexample:
  "\<not> (2 :: ObjectLayer) < Layers_NUM_LAYERS
   \<and> GetBroadPhaseLayer False (BPLayerInterfaceImpl (BroadPhaseLayer 9) (BroadPhaseLayer 9))
        sample_beyond 2 = Inr (BroadPhaseLayer 0)
   \<and> GetBroadPhaseLayer False (BPLayerInterfaceImpl (BroadPhaseLayer 9) (BroadPhaseLayer 9))
        sample_beyond 2 \<noteq> Inl AssertFailed"
  by (simp add: GetBroadPhaseLayer_def BPLayerInterfaceImpl_def JPH_ASSERT_def layer_defs
      sample_beyond_def)

text \<open>
  C8, amended. \<open>GetBroadPhaseLayer\<close> on the table the constructor builds: a layer below
  \<open>NUM_LAYERS\<close> is one of the two layers, the result is the table's entry at that index
  and never the assertion failure; non-moving maps to the non-moving broad-phase layer
  and moving to the moving one. A layer outside the range fails the assertion in a
  build with assertions; in a build without them nothing checks the index and the
  lookup returns what lies after the table, with no error.
\<close>

theorem GetBroadPhaseLayer_table_lookup:
  "(inLayer < Layers_NUM_LAYERS \<longrightarrow>
      inLayer \<in> {Layers_NON_MOVING, Layers_MOVING}
    \<and> GetBroadPhaseLayer asserts (BPLayerInterfaceImpl u0 u1) beyond inLayer
        = Inr (BPLayerInterfaceImpl u0 u1 ! unat inLayer)
    \<and> GetBroadPhaseLayer asserts (BPLayerInterfaceImpl u0 u1) beyond inLayer
        \<noteq> Inl AssertFailed)
   \<and> GetBroadPhaseLayer asserts (BPLayerInterfaceImpl u0 u1) beyond Layers_NON_MOVING
        = Inr BroadPhaseLayers_NON_MOVING
   \<and> GetBroadPhaseLayer asserts (BPLayerInterfaceImpl u0 u1) beyond Layers_MOVING
        = Inr BroadPhaseLayers_MOVING
   \<and> (\<not> inLayer < Layers_NUM_LAYERS \<longrightarrow>
        GetBroadPhaseLayer asserts (BPLayerInterfaceImpl u0 u1) beyond inLayer
          = (if asserts then Inl AssertFailed else Inr (beyond (unat inLayer))))"
  apply (simp add: GetBroadPhaseLayer_def BPLayerInterfaceImpl_def JPH_ASSERT_def
      layer_defs ObjectLayer_less_2)
  apply (auto simp: word_less_nat_alt word_unat_eq_iff)
  done

theorem GetBroadPhaseLayer_table_lookup_witness:
  "(1 :: ObjectLayer) < Layers_NUM_LAYERS
   \<and> GetBroadPhaseLayer False (BPLayerInterfaceImpl (BroadPhaseLayer 9) (BroadPhaseLayer 9))
        sample_beyond 1 = Inr (BroadPhaseLayer 1)
   \<and> \<not> (2 :: ObjectLayer) < Layers_NUM_LAYERS
   \<and> GetBroadPhaseLayer True (BPLayerInterfaceImpl (BroadPhaseLayer 9) (BroadPhaseLayer 9))
        sample_beyond 2 = Inl AssertFailed
   \<and> GetBroadPhaseLayer False (BPLayerInterfaceImpl (BroadPhaseLayer 9) (BroadPhaseLayer 9))
        sample_beyond 2 = Inr (sample_beyond 2)"
  using GetBroadPhaseLayer_table_lookup [where inLayer = 1 and asserts = False
        and ?u0.0 = "BroadPhaseLayer 9" and ?u1.0 = "BroadPhaseLayer 9" and beyond = sample_beyond]
    GetBroadPhaseLayer_table_lookup [where inLayer = 2 and asserts = True
        and ?u0.0 = "BroadPhaseLayer 9" and ?u1.0 = "BroadPhaseLayer 9" and beyond = sample_beyond]
    GetBroadPhaseLayer_table_lookup [where inLayer = 2 and asserts = False
        and ?u0.0 = "BroadPhaseLayer 9" and ?u1.0 = "BroadPhaseLayer 9" and beyond = sample_beyond]
  by (simp add: BPLayerInterfaceImpl_def layer_defs)

section \<open>The contact listener accepts\<close>

text \<open>
  C9. \<open>OnContactValidate\<close> returns \<open>AcceptAllContactsForThisBodyPair\<close> for every pair
  of bodies, base offset and collision result; neither rejecting value is ever returned.
\<close>

theorem OnContactValidate_accepts:
  "fst (OnContactValidate inBody1 inBody2 inBaseOffset inCollisionResult)
     = AcceptAllContactsForThisBodyPair
   \<and> fst (OnContactValidate inBody1 inBody2 inBaseOffset inCollisionResult) \<noteq> RejectContact
   \<and> fst (OnContactValidate inBody1 inBody2 inBaseOffset inCollisionResult)
       \<noteq> RejectAllContactsForThisBodyPair"
  by (simp add: OnContactValidate_def)

section \<open>The tick interval in single precision\<close>

lemmas float_defs =
  round_single_def round_double_def round_binary_def round_half_even_def pow2_def

lemma binade_numeral [simp]:
  "binade (numeral k) x =
     (if 2 \<le> x then binade (pred_numeral k) (x / 2) + 1
      else if x < 1 then binade (pred_numeral k) (2 * x) - 1
      else 0)"
  by (simp add: numeral_eq_Suc)

lemma pow2_power_int: "pow2 k = power_int 2 k"
  by (simp add: pow2_def power_int_def power_one_over inverse_eq_divide)

lemma pow2_add1: "pow2 (k + 1) = 2 * pow2 k"
  by (simp add: pow2_power_int power_int_add)

text \<open>Within its fuel \<open>binade\<close> finds the exponent of its argument.\<close>

lemma binade_bounds:
  "pow2 (- int fuel) \<le> x \<Longrightarrow> x < pow2 (int fuel + 1) \<Longrightarrow>
     pow2 (binade fuel x) \<le> x \<and> x < pow2 (binade fuel x + 1)"
proof (induction fuel arbitrary: x)
  case 0
  then show ?case by (simp add: pow2_def)
next
  case (Suc fuel)
  have up: "pow2 (int fuel + 1 + 1) = 2 * pow2 (int fuel + 1)"
    by (rule pow2_add1)
  have down: "pow2 (- int fuel) = 2 * pow2 (- int fuel - 1)"
    using pow2_add1 [of "- int fuel - 1"] by simp
  have one: "pow2 (- int fuel) \<le> 1" "2 \<le> pow2 (int fuel + 1)"
    by (simp_all add: pow2_def nat_add_distrib)
  have e1: "- int (Suc fuel) = - int fuel - 1" and e2: "int (Suc fuel) + 1 = int fuel + 1 + 1"
    by simp_all
  have lo: "pow2 (- int fuel - 1) \<le> x"
    using Suc.prems(1) by (simp only: e1)
  have hi: "x < pow2 (int fuel + 1 + 1)"
    using Suc.prems(2) by (simp only: e2)
  show ?case
  proof (cases "2 \<le> x")
    case True
    let ?b = "binade fuel (x / 2)"
    from True one hi up have "pow2 (- int fuel) \<le> x / 2" "x / 2 < pow2 (int fuel + 1)"
      by simp_all
    from Suc.IH [OF this] have "pow2 ?b \<le> x / 2" "x / 2 < pow2 (?b + 1)"
      by simp_all
    then have "pow2 (?b + 1) \<le> x" "x < pow2 (?b + 1 + 1)"
      unfolding pow2_add1 [of "?b + 1"] unfolding pow2_add1 [of ?b] by simp_all
    with True show ?thesis by simp
  next
    case False
    show ?thesis
    proof (cases "x < 1")
      case True
      let ?b = "binade fuel (2 * x)"
      from True one lo down
      have "pow2 (- int fuel) \<le> 2 * x" "2 * x < pow2 (int fuel + 1)"
        by simp_all
      from Suc.IH [OF this] have "pow2 ?b \<le> 2 * x" "2 * x < pow2 (?b + 1)"
        by simp_all
      moreover have "pow2 ?b = 2 * pow2 (?b - 1)"
        using pow2_add1 [of "?b - 1"] by simp
      ultimately have "pow2 (?b - 1) \<le> x" "x < pow2 (?b - 1 + 1)"
        unfolding pow2_add1 [of ?b] by simp_all
      with True \<open>\<not> 2 \<le> x\<close> show ?thesis by simp
    next
      case False
      with \<open>\<not> 2 \<le> x\<close> show ?thesis by (simp add: pow2_def)
    qed
  qed
qed

lemma round_single_1000: "round_single 1000 = 1000"
  by (simp add: float_defs Let_def)

lemma round_single_60: "round_single 60 = 60"
  by (simp add: float_defs Let_def)

lemma round_single_1000_by_60: "round_single (1000 / 60) = 8738133 / 524288"
  by (simp add: float_defs Let_def)

text \<open>The interval is a little less than a sixtieth of a second.\<close>

lemma tick_interval_value: "tick_interval = 1118481 / 67108864"
  unfolding tick_interval_def kMillisecondsPerSecond_def kTickrate_def
  by (simp add: round_single_1000 round_single_60 round_single_1000_by_60)
    (simp add: float_defs Let_def)

lemma tick_interval_below_sixtieth: "tick_interval < 1 / 60"
  by (simp add: tick_interval_value)


lemma Game_Update_toggles:
  "snd (Game_Update key_queue debug_menu) =
     (if even (length (filter (\<lambda>key. key = KEY_F9) key_queue)) then debug_menu
      else \<not> debug_menu)"
  by (induction key_queue arbitrary: debug_menu) (simp_all add: KEY_F9_def)

section \<open>Traces of the engine's functions\<close>

lemmas sample_defs =
  countdown_def sample_engine_def sample_frame_def sample_state_def
  kTickrate_def kMillisecondsPerSecond_def

lemma engine_updates_append:
  "engine_updates (xs @ ys) = engine_updates xs @ engine_updates ys"
  by (induction xs rule: engine_updates.induct) simp_all

lemma update_engine_updates:
  "update J dt pos e = (r, p', e', cs) \<Longrightarrow>
     engine_updates cs = (if IsActive J (physics_system e) (sphere_id e) then [(dt, 1)] else [])"
  by (auto simp: update_def Let_def split: if_splits)

lemma update_step: "update J dt pos e = (r, p', e', cs) \<Longrightarrow> step e' = step e + 1"
  by (auto simp: update_def Let_def split: if_splits)

lemma update_length_updates:
  "update J dt pos e = (r, p', e', cs) \<Longrightarrow> length (engine_updates cs) \<le> 1"
  by (auto simp: update_def Let_def split: if_splits)

lemma loop_iteration_engine_updates:
  assumes "loop_iteration J f s = (s', cs)"
  shows "engine_updates cs =
     (if IsActive J (physics_system (physics_engine s)) (sphere_id (physics_engine s))
      then [(GetFrameTime f, 1)] else [])"
proof -
  from assms obtain r ucs
    where u: "update J (GetFrameTime f) (sphere_position s) (physics_engine s)
                = (r, sphere_position s', physics_engine s', ucs)"
      and cs: "\<exists>d. cs = Call_draw_scene (fst d) (snd d) # ucs"
    by (auto simp: loop_iteration_def Let_def split: if_splits prod.splits)
  from cs obtain d where "cs = Call_draw_scene (fst d) (snd d) # ucs" by blast
  then have "engine_updates cs = engine_updates ucs" by simp
  with update_engine_updates [OF u] show ?thesis by simp
qed

lemma main_loop_engine_updates:
  "main_loop J fs s = (s', cs) \<Longrightarrow> \<forall>(dt, n) \<in> set (engine_updates cs). n = 1"
proof (induction fs arbitrary: s s' cs)
  case Nil
  then show ?case by simp
next
  case (Cons f fs)
  obtain s1 cs1 where it: "loop_iteration J f s = (s1, cs1)"
    by (cases "loop_iteration J f s")
  obtain s2 cs2 where rest: "main_loop J fs s1 = (s2, cs2)"
    by (cases "main_loop J fs s1")
  from Cons.prems it rest have cs: "cs = cs1 @ cs2" by simp
  from Cons.IH [OF rest] loop_iteration_engine_updates [OF it] show ?case
    by (auto simp: cs engine_updates_append split: if_splits)
qed

lemma updates_step:
  "updates J dts pos e = (p', e', cs) \<Longrightarrow>
     step e' = step e + word_of_nat (length dts) \<and> length (engine_updates cs) \<le> length dts"
proof (induction dts arbitrary: pos e p' e' cs)
  case Nil
  then show ?case by simp
next
  case (Cons dt dts)
  obtain r p1 e1 cs1 where u: "update J dt pos e = (r, p1, e1, cs1)"
    by (cases "update J dt pos e")
  obtain p2 e2 cs2 where rest: "updates J dts p1 e1 = (p2, e2, cs2)"
    by (cases "updates J dts p1 e1")
  from Cons.prems u rest have eq: "p' = p2" "e' = e2" "cs = cs1 @ cs2" by simp_all
  from Cons.IH [OF rest] update_step [OF u] update_length_updates [OF u]
  show ?case by (simp add: eq engine_updates_append)
qed

section \<open>Setup and teardown order\<close>





section \<open>The step: collision steps, position, counter\<close>

text \<open>
  C7. Every engine step that a call of \<open>update\<close> makes receives 1 as its number of
  collision steps (never a number below 1) and the call's delta time; so does every
  engine step of a whole run of the loop.
\<close>

theorem update_collision_steps_one:
  "(\<forall>(dt, n) \<in> set (engine_updates (snd (snd (snd (update J cDeltaTime pos e))))).
       n = 1 \<and> \<not> n < 1 \<and> dt = cDeltaTime)
   \<and> (\<forall>(dt, n) \<in> set (engine_updates (snd (main_loop J fs s))). n = 1 \<and> \<not> n < 1)"
proof -
  obtain r p' e' cs where u: "update J cDeltaTime pos e = (r, p', e', cs)"
    by (cases "update J cDeltaTime pos e")
  obtain s' cs' where m: "main_loop J fs s = (s', cs')"
    by (cases "main_loop J fs s")
  from update_engine_updates [OF u] main_loop_engine_updates [OF m] show ?thesis
    by (auto simp: u m split: if_splits)
qed

theorem update_collision_steps_one_witness:
  "engine_updates (snd (snd (snd (update countdown (1 / 60) (Vector3 0 10 0) (sample_engine 2)))))
     = [(1 / 60, 1)]
   \<and> engine_updates
       (snd (main_loop countdown [sample_frame 1, sample_frame 2, sample_frame 3] (sample_state 2)))
     = [(1 / 60, 1), (1 / 60, 1)]"
  using update_collision_steps_one [where J = countdown and cDeltaTime = "1 / 60"
      and pos = "Vector3 0 10 0" and e = "sample_engine 2"
      and fs = "[sample_frame 1, sample_frame 2, sample_frame 3]" and s = "sample_state 2"]
  by (simp add: update_def loop_iteration_def tick_gate_def tick_interval_value float_defs
      Let_def sample_defs)

text \<open>
  C10. With the sphere inactive \<open>update\<close> returns false and leaves \<open>sphere_position\<close>
  as it was. With the sphere active it returns true and stores the centre-of-mass
  position of the world as it is before the step: the world afterwards is the step of
  that world, and in the trace the position query comes before the step and not after.
\<close>

theorem update_sphere_position:
  "case update J cDeltaTime pos e of (r, p', e', cs) \<Rightarrow>
     (\<not> IsActive J (physics_system e) (sphere_id e) \<longrightarrow> \<not> r \<and> p' = pos)
   \<and> (IsActive J (physics_system e) (sphere_id e) \<longrightarrow>
        r
      \<and> p' = (case GetCenterOfMassPosition J (physics_system e) (sphere_id e) of
                RVec3 a b c \<Rightarrow> Vector3 a b c)
      \<and> physics_system e' = Update J (physics_system e) cDeltaTime 1
      \<and> precedes (Call_GetCenterOfMassPosition (sphere_id e)) (Call_Update cDeltaTime 1) cs
      \<and> \<not> precedes (Call_Update cDeltaTime 1) (Call_GetCenterOfMassPosition (sphere_id e)) cs)"
  by (auto simp: update_def Let_def precedes_def split: if_splits RVec3.splits)

theorem update_sphere_position_witness:
  "\<not> IsActive countdown (physics_system (sample_engine 0)) (sphere_id (sample_engine 0))
   \<and> fst (update countdown (1 / 60) (Vector3 0 10 0) (sample_engine 0)) = False
   \<and> fst (snd (update countdown (1 / 60) (Vector3 0 10 0) (sample_engine 0))) = Vector3 0 10 0
   \<and> IsActive countdown (physics_system (sample_engine 3)) (sphere_id (sample_engine 3))
   \<and> fst (update countdown (1 / 60) (Vector3 0 10 0) (sample_engine 3)) = True
   \<and> fst (snd (update countdown (1 / 60) (Vector3 0 10 0) (sample_engine 3))) = Vector3 0 3 0
   \<and> GetCenterOfMassPosition countdown
        (physics_system
          (fst (snd (snd (update countdown (1 / 60) (Vector3 0 10 0) (sample_engine 3))))))
        1 = RVec3 0 2 0"
  using update_sphere_position [where J = countdown and cDeltaTime = "1 / 60"
        and pos = "Vector3 0 10 0" and e = "sample_engine 0"]
    update_sphere_position [where J = countdown and cDeltaTime = "1 / 60"
        and pos = "Vector3 0 10 0" and e = "sample_engine 3"]
  by (simp add: update_def Let_def sample_defs)

text \<open>
  C3, as stated, fails: on a call with the sphere inactive the counter goes up by 1 and
  no engine step is made.
\<close>

theorem step_counter_counterexample:
  "\<not> ((step (fst (snd (snd (update countdown (1 / 60) (Vector3 0 10 0) (sample_engine 0)))))
          = step (sample_engine 0) + 1)
       = (engine_updates
            (snd (snd (snd (update countdown (1 / 60) (Vector3 0 10 0) (sample_engine 0)))))
          \<noteq> []))"
  by (simp add: update_def Let_def sample_defs)

text \<open>
  C3, amended. The counter \<open>_step\<close> goes up by exactly 1, modulo \<open>2 ^ 32\<close>, on every call
  of \<open>update\<close>, whether or not the engine step is made; the engine step is made once when
  the sphere is active and not at all otherwise. Over consecutive calls the counter
  advances by the number of calls, and the engine steps are at most as many.
\<close>

theorem step_counts_calls:
  "(case update J cDeltaTime pos e of (r, p', e', cs) \<Rightarrow>
      step e' = step e + 1
    \<and> length (engine_updates cs)
        = (if IsActive J (physics_system e) (sphere_id e) then 1 else 0))
   \<and> (case updates J dts pos e of (p', e', cs) \<Rightarrow>
        step e' = step e + word_of_nat (length dts)
      \<and> unat (step e') = (unat (step e) + length dts) mod 2 ^ 32
      \<and> length (engine_updates cs) \<le> length dts)"
proof -
  obtain p' e' cs where us: "updates J dts pos e = (p', e', cs)"
    by (cases "updates J dts pos e")
  from updates_step [OF us] have st: "step e' = step e + word_of_nat (length dts)"
    and le: "length (engine_updates cs) \<le> length dts" by simp_all
  have "unat (step e') = (unat (step e) + length dts) mod 2 ^ 32"
    unfolding st by (simp add: unat_word_ariths unat_of_nat mod_add_right_eq)
  with st le us show ?thesis
    by (auto simp: update_def Let_def)
qed

theorem step_counts_calls_witness:
  "\<not> IsActive countdown (physics_system (sample_engine 0)) (sphere_id (sample_engine 0))
   \<and> step (fst (snd (snd (update countdown (1 / 60) (Vector3 0 10 0) (sample_engine 0))))) = 1
   \<and> step (fst (snd (updates countdown [1 / 60, 1 / 60, 1 / 60] (Vector3 0 10 0)
                      (sample_engine 1)))) = 3
   \<and> length (engine_updates (snd (snd (updates countdown [1 / 60, 1 / 60, 1 / 60]
                                         (Vector3 0 10 0) (sample_engine 1))))) = 1
   \<and> step (fst (snd (updates countdown [1 / 60] (Vector3 0 10 0)
                      ((sample_engine 1)\<lparr>step := 4294967295\<rparr>)))) = 0"
  using step_counts_calls [where J = countdown and cDeltaTime = "1 / 60"
        and pos = "Vector3 0 10 0" and e = "sample_engine 0" and dts = "[1 / 60, 1 / 60, 1 / 60]"]
    step_counts_calls [where J = countdown and cDeltaTime = "1 / 60"
        and pos = "Vector3 0 10 0" and e = "sample_engine 1" and dts = "[1 / 60, 1 / 60, 1 / 60]"]
    step_counts_calls [where J = countdown and cDeltaTime = "1 / 60"
        and pos = "Vector3 0 10 0" and e = "(sample_engine 1)\<lparr>step := 4294967295\<rparr>"
        and dts = "[1 / 60]"]
  by (simp add: update_def Let_def sample_defs split: prod.splits)

section \<open>The stepping driver\<close>




text \<open>
  C2, as stated, fails: with the sphere inactive a call of \<open>update\<close> makes no engine
  step.
\<close>

theorem sleeping_step_counterexample:
  "\<not> IsActive countdown (physics_system (sample_engine 0)) (sphere_id (sample_engine 0))
   \<and> engine_updates
       (snd (snd (snd (update countdown (1 / 60) (Vector3 0 10 0) (sample_engine 0))))) = []"
  by (simp add: update_def Let_def sample_defs)

text \<open>
  C2, amended. While the sphere is inactive the driver still calls \<open>update\<close> in every
  iteration and the call is counted in \<open>_step\<close>, but \<open>update\<close> returns false before the
  engine step: no engine step is made, the world and the published position stay as they
  are, the line "Ball is not active" is logged and the position and velocity line is
  not.
\<close>

theorem update_inactive_no_engine_step:
  assumes "\<not> IsActive J (physics_system (physics_engine s)) (sphere_id (physics_engine s))"
  shows "(case update J cDeltaTime pos (physics_engine s) of (r, p', e', cs) \<Rightarrow>
            \<not> r \<and> engine_updates cs = [] \<and> step_lines cs = []
          \<and> Call_spdlog_info Ball_is_not_active \<in> set cs
          \<and> physics_system e' = physics_system (physics_engine s)
          \<and> step e' = step (physics_engine s) + 1)
       \<and> (case loop_iteration J f s of (s', cs) \<Rightarrow>
            engine_updates cs = [] \<and> step_lines cs = []
          \<and> Call_spdlog_info Ball_is_not_active \<in> set cs
          \<and> sphere_position s' = sphere_position s
          \<and> physics_system (physics_engine s') = physics_system (physics_engine s)
          \<and> step (physics_engine s') = step (physics_engine s) + 1)"
  using assms
  by (auto simp: loop_iteration_def update_def Let_def split: if_splits prod.splits)

theorem update_inactive_no_engine_step_witness:
  "\<not> IsActive countdown (physics_system (physics_engine (sample_state 0)))
        (sphere_id (physics_engine (sample_state 0)))
   \<and> step_lines (snd (loop_iteration countdown (sample_frame 1) (sample_state 0))) = []
   \<and> engine_updates (snd (loop_iteration countdown (sample_frame 1) (sample_state 0))) = []
   \<and> step (physics_engine (fst (loop_iteration countdown (sample_frame 1) (sample_state 0))))
       = 1
   \<and> sphere_position (fst (loop_iteration countdown (sample_frame 1) (sample_state 0)))
       = Vector3 0 10 0"
proof -
  have h: "\<not> IsActive countdown (physics_system (physics_engine (sample_state 0)))
              (sphere_id (physics_engine (sample_state 0)))"
    by (simp add: sample_defs)
  show ?thesis
    using h update_inactive_no_engine_step [OF h, of "1 / 60" "Vector3 0 10 0" "sample_frame 1"]
    by (simp add: sample_defs split: prod.splits)
qed

end
